theory Spec2Isabelle
  imports Complex_Main "HOL-Library.AList" "HOL-Library.Sublist" "HOL-Library.Word"
begin

section \<open>Data model\<close>

text \<open>
  The engine is the class \<open>PowerKit\<close> of \<^verbatim>\<open>src/lib/powerkit.cpp\<close>. Its header, the
  macro definitions and the class \<open>Device\<close> are not part of the sources at hand, so
  the values they provide are fields of the environment record below, next to the answers
  of the system bus.

  The enumerations follow the cases of the \<^verbatim>\<open>switch\<close> statements in
  \<open>availableAction\<close> and \<open>executeAction\<close>; the first constructor of each stands for
  the values that fall into the \<^verbatim>\<open>default\<close> branch.
\<close>

datatype PKBackend = PKNoBackend | PKConsoleKit | PKLogind | PKUPower

datatype PKMethod = PKNoMethod | PKCanRestart | PKCanPowerOff | PKCanSuspend
  | PKCanHibernate | PKCanHybridSleep | PKSuspendAllowed | PKHibernateAllowed

datatype PKAction = PKNoAction | PKRestartAction | PKPowerOffAction | PKSuspendAction
  | PKHibernateAction | PKHybridSleepAction

text \<open>
  The cached attributes of a \<open>Device\<close> that \<open>PowerKit\<close> reads. \<open>percentage\<close> is a
  C++ \<^verbatim>\<open>double\<close>; finite doubles are modelled by reals (rounding is left out), and
  the one operation that can leave the finite numbers, the division in
  \<open>BatteryLeft\<close>, returns a value of the type \<open>double\<close> below. The two time fields are
  accumulated in a \<^verbatim>\<open>qlonglong\<close>, a 64-bit integer.
\<close>

record Device =
  path :: string
  isBattery :: bool
  isPresent :: bool
  nativePath :: string
  percentage :: real
  timeToEmpty :: "64 word"
  timeToFull :: "64 word"

datatype double = Finite real | PosInf | NegInf | NaN

text \<open>
  The first argument of a reply is a \<^verbatim>\<open>QVariant\<close>; the backends answer a capability query
  with a string (logind and ConsoleKit: \<^verbatim>\<open>yes\<close>, \<^verbatim>\<open>no\<close>, \<^verbatim>\<open>challenge\<close>, \<^verbatim>\<open>na\<close>) or with a
  boolean (UPower). \<open>QVariant_toString\<close> and \<open>QVariant_toBool\<close> are Qt's conversions
  for these two kinds of value, as Qt documents them: a boolean prints as \<^verbatim>\<open>true\<close> or
  \<^verbatim>\<open>false\<close>, and a string converts to \<open>False\<close> exactly when its lower-case content is
  empty, \<^verbatim>\<open>0\<close> or \<^verbatim>\<open>false\<close>. \<open>toLower\<close> lowers the letters A to Z.
\<close>

datatype QVariant = QString string | QBool bool

definition toLower :: "string \<Rightarrow> string" where
  "toLower s =
     map (\<lambda>c. case map_of (zip ''ABCDEFGHIJKLMNOPQRSTUVWXYZ'' ''abcdefghijklmnopqrstuvwxyz'') c of
                 Some l \<Rightarrow> l
               | None \<Rightarrow> c) s"

definition QVariant_toString :: "QVariant \<Rightarrow> string" where
  "QVariant_toString v =
     (case v of QString s \<Rightarrow> s | QBool b \<Rightarrow> if b then ''true'' else ''false'')"

definition QVariant_toBool :: "QVariant \<Rightarrow> bool" where
  "QVariant_toBool v =
     (case v of
        QBool b \<Rightarrow> b
      | QString s \<Rightarrow> \<not> (toLower s = [] \<or> toLower s = ''0'' \<or> toLower s = ''false''))"

text \<open>
  A reply to a capability query, as \<open>availableAction\<close> reads it:
  \<^verbatim>\<open>reply.arguments().first()\<close> and \<^verbatim>\<open>reply.errorMessage()\<close>.
\<close>

record Reply =
  arguments_first :: QVariant
  errorMessage :: string

text \<open>
  The environment of one handler run: what the system bus answers while the handler
  runs (the handlers run to completion on one thread, so every read of the same property
  within a run sees the same bus), the macro values of the missing header, and the
  operations of the missing class \<open>Device\<close>. \<open>Device_new\<close> is the constructor,
  \<open>Device_update\<close> and \<open>Device_updateBattery\<close> give the cached attributes after
  \<^verbatim>\<open>update()\<close> and \<^verbatim>\<open>updateBattery()\<close>; signals that a \<open>Device\<close> raises on its own
  are outside the model. \<open>DBUS_JOBS_UPOWER_PATH\<close> is the string
  \<^verbatim>\<open>QString(DBUS_JOBS).arg(UPOWER_PATH)\<close>.
\<close>

record Env =
  upower_isValid :: bool
  logind_isValid :: bool
  LOGIND_DOCKED :: bool
  UPOWER_DOCKED :: bool
  UPOWER_LID_IS_PRESENT :: bool
  UPOWER_LID_IS_CLOSED :: bool
  UPOWER_ON_BATTERY :: bool
  iface_isValid :: "PKBackend \<Rightarrow> bool"
  call_method :: "PKBackend \<Rightarrow> PKMethod \<Rightarrow> Reply"
  call_action :: "PKBackend \<Rightarrow> PKAction \<Rightarrow> string"
  introspect :: "string list option"
  DBUS_OK_REPLY :: string
  PK_NO_BACKEND :: string
  PK_NO_ACTION :: string
  DBUS_FAILED_CONN :: string
  UPOWER_DEVICES :: string
  DBUS_JOBS_UPOWER_PATH :: string
  Device_new :: "string \<Rightarrow> Device"
  Device_update :: "Device \<Rightarrow> Device"
  Device_updateBattery :: "Device \<Rightarrow> Device"

text \<open>
  The fields of \<open>PowerKit\<close>. \<open>devices\<close> is a \<^verbatim>\<open>QMap<QString, Device*>\<close>, kept as an
  association list with one entry per key (new keys are appended; the key order in which
  a \<^verbatim>\<open>QMap\<close> iterates plays no role in what is computed here). The two inhibitor
  tables are \<^verbatim>\<open>QMap<quint32, QString>\<close>. The model describes the engine once \<open>setup\<close>
  has created the \<open>upower\<close> and \<open>logind\<close> interfaces.
\<close>

record PowerKit =
  devices :: "(string \<times> Device) list"
  wasDocked :: bool
  wasLidClosed :: bool
  wasOnBattery :: bool
  ssInhibitors :: "32 word \<rightharpoonup> string"
  pmInhibitors :: "32 word \<rightharpoonup> string"

datatype Signal = UpdatedDevices | DeviceWasAdded string | DeviceWasRemoved string
  | LidClosed | LidOpened | SwitchedToBattery | SwitchedToAC | UpdatedInhibitors

text \<open>Calls that reach the system bus while a capability query or an action runs.\<close>

datatype BusCall = Probe PKBackend | MethodCall PKBackend PKMethod
  | ActionCall PKBackend PKAction bool

section \<open>Inhibitor tables\<close>

definition handleNewInhibitScreenSaver ::
  "string \<Rightarrow> string \<Rightarrow> 32 word \<Rightarrow> PowerKit \<Rightarrow> PowerKit \<times> Signal list" where
  "handleNewInhibitScreenSaver application reason cookie s =
     (s\<lparr>ssInhibitors := (ssInhibitors s)(cookie \<mapsto> application)\<rparr>, [UpdatedInhibitors])"

definition handleNewInhibitPowerManagement ::
  "string \<Rightarrow> string \<Rightarrow> 32 word \<Rightarrow> PowerKit \<Rightarrow> PowerKit \<times> Signal list" where
  "handleNewInhibitPowerManagement application reason cookie s =
     (s\<lparr>pmInhibitors := (pmInhibitors s)(cookie \<mapsto> application)\<rparr>, [UpdatedInhibitors])"

definition handleDelInhibitScreenSaver :: "32 word \<Rightarrow> PowerKit \<Rightarrow> PowerKit \<times> Signal list" where
  "handleDelInhibitScreenSaver cookie s =
     (if ssInhibitors s cookie \<noteq> None
      then (s\<lparr>ssInhibitors := (ssInhibitors s)(cookie := None)\<rparr>, [UpdatedInhibitors])
      else (s, []))"

definition handleDelInhibitPowerManagement :: "32 word \<Rightarrow> PowerKit \<Rightarrow> PowerKit \<times> Signal list" where
  "handleDelInhibitPowerManagement cookie s =
     (if pmInhibitors s cookie \<noteq> None
      then (s\<lparr>pmInhibitors := (pmInhibitors s)(cookie := None)\<rparr>, [UpdatedInhibitors])
      else (s, []))"

section \<open>Backend reachability, capabilities and actions\<close>

text \<open>
  \<open>availableService\<close> builds a \<^verbatim>\<open>QDBusInterface\<close> for the manager object of a backend
  and reports whether it is valid. \<open>HasConsoleKit\<close>, \<open>HasLogind\<close> and \<open>HasUPower\<close> pass
  the three fixed triples of service, path and interface.
\<close>

definition availableService :: "Env \<Rightarrow> PKBackend \<Rightarrow> bool \<times> BusCall list" where
  "availableService e backend = (if iface_isValid e backend then True else False, [Probe backend])"

definition HasConsoleKit :: "Env \<Rightarrow> bool \<times> BusCall list" where
  "HasConsoleKit e = availableService e PKConsoleKit"

definition HasLogind :: "Env \<Rightarrow> bool \<times> BusCall list" where
  "HasLogind e = availableService e PKLogind"

definition HasUPower :: "Env \<Rightarrow> bool \<times> BusCall list" where
  "HasUPower e = availableService e PKUPower"

definition availableAction :: "Env \<Rightarrow> PKMethod \<Rightarrow> PKBackend \<Rightarrow> bool \<times> BusCall list" where
  "availableAction e method backend =
     (if backend = PKNoBackend then (False, [])
      else if method = PKNoMethod then (False, [])
      else if \<not> iface_isValid e backend then (False, [Probe backend])
      else
        let reply = call_method e backend method;
            calls = [Probe backend, MethodCall backend method]
        in if QVariant_toString (arguments_first reply) = DBUS_OK_REPLY e then (True, calls)
           else
             let result = QVariant_toBool (arguments_first reply);
                 result = (if errorMessage reply \<noteq> [] then False else result)
             in (result, calls))"

definition executeAction :: "Env \<Rightarrow> PKAction \<Rightarrow> PKBackend \<Rightarrow> string \<times> BusCall list" where
  "executeAction e action backend =
     (if backend = PKNoBackend then (PK_NO_BACKEND e, [])
      else if action = PKNoAction then (PK_NO_ACTION e, [])
      else if \<not> iface_isValid e backend then (DBUS_FAILED_CONN e, [Probe backend])
      else (call_action e backend action,
            [Probe backend, ActionCall backend action (backend \<noteq> PKUPower)]))"

text \<open>Sequencing: the calls made so far, followed by the calls of the next step.\<close>

definition after :: "BusCall list \<Rightarrow> 'a \<times> BusCall list \<Rightarrow> 'a \<times> BusCall list" where
  "after t r = (fst r, t @ snd r)"

definition CanRestart :: "Env \<Rightarrow> bool \<times> BusCall list" where
  "CanRestart e =
     (let (l, t1) = HasLogind e in
      if l then after t1 (availableAction e PKCanRestart PKLogind)
      else let (c, t2) = HasConsoleKit e in
        if c then after (t1 @ t2) (availableAction e PKCanRestart PKConsoleKit)
        else (False, t1 @ t2))"

definition CanPowerOff :: "Env \<Rightarrow> bool \<times> BusCall list" where
  "CanPowerOff e =
     (let (l, t1) = HasLogind e in
      if l then after t1 (availableAction e PKCanPowerOff PKLogind)
      else let (c, t2) = HasConsoleKit e in
        if c then after (t1 @ t2) (availableAction e PKCanPowerOff PKConsoleKit)
        else (False, t1 @ t2))"

definition CanSuspend :: "Env \<Rightarrow> bool \<times> BusCall list" where
  "CanSuspend e =
     (let (l, t1) = HasLogind e in
      if l then after t1 (availableAction e PKCanSuspend PKLogind)
      else let (c, t2) = HasConsoleKit e in
        if c then after (t1 @ t2) (availableAction e PKCanSuspend PKConsoleKit)
        else let (u, t3) = HasUPower e in
          if u then after (t1 @ t2 @ t3) (availableAction e PKSuspendAllowed PKUPower)
          else (False, t1 @ t2 @ t3))"

definition CanHibernate :: "Env \<Rightarrow> bool \<times> BusCall list" where
  "CanHibernate e =
     (let (l, t1) = HasLogind e in
      if l then after t1 (availableAction e PKCanHibernate PKLogind)
      else let (c, t2) = HasConsoleKit e in
        if c then after (t1 @ t2) (availableAction e PKCanHibernate PKConsoleKit)
        else let (u, t3) = HasUPower e in
          if u then after (t1 @ t2 @ t3) (availableAction e PKHibernateAllowed PKUPower)
          else (False, t1 @ t2 @ t3))"

definition CanHybridSleep :: "Env \<Rightarrow> bool \<times> BusCall list" where
  "CanHybridSleep e =
     (let (l, t1) = HasLogind e in
      if l then after t1 (availableAction e PKCanHybridSleep PKLogind)
      else let (c, t2) = HasConsoleKit e in
        if c then after (t1 @ t2) (availableAction e PKCanHybridSleep PKConsoleKit)
        else (False, t1 @ t2))"

definition Restart :: "Env \<Rightarrow> string \<times> BusCall list" where
  "Restart e =
     (let (l, t1) = HasLogind e in
      if l then after t1 (executeAction e PKRestartAction PKLogind)
      else let (c, t2) = HasConsoleKit e in
        if c then after (t1 @ t2) (executeAction e PKRestartAction PKConsoleKit)
        else (PK_NO_BACKEND e, t1 @ t2))"

definition PowerOff :: "Env \<Rightarrow> string \<times> BusCall list" where
  "PowerOff e =
     (let (l, t1) = HasLogind e in
      if l then after t1 (executeAction e PKPowerOffAction PKLogind)
      else let (c, t2) = HasConsoleKit e in
        if c then after (t1 @ t2) (executeAction e PKPowerOffAction PKConsoleKit)
        else (PK_NO_BACKEND e, t1 @ t2))"

definition Suspend :: "Env \<Rightarrow> string \<times> BusCall list" where
  "Suspend e =
     (let (l, t1) = HasLogind e in
      if l then after t1 (executeAction e PKSuspendAction PKLogind)
      else let (c, t2) = HasConsoleKit e in
        if c then after (t1 @ t2) (executeAction e PKSuspendAction PKConsoleKit)
        else let (u, t3) = HasUPower e in
          if u then after (t1 @ t2 @ t3) (executeAction e PKSuspendAction PKUPower)
          else (PK_NO_BACKEND e, t1 @ t2 @ t3))"

definition Hibernate :: "Env \<Rightarrow> string \<times> BusCall list" where
  "Hibernate e =
     (let (l, t1) = HasLogind e in
      if l then after t1 (executeAction e PKHibernateAction PKLogind)
      else let (c, t2) = HasConsoleKit e in
        if c then after (t1 @ t2) (executeAction e PKHibernateAction PKConsoleKit)
        else let (u, t3) = HasUPower e in
          if u then after (t1 @ t2 @ t3) (executeAction e PKHibernateAction PKUPower)
          else (PK_NO_BACKEND e, t1 @ t2 @ t3))"

definition HybridSleep :: "Env \<Rightarrow> string \<times> BusCall list" where
  "HybridSleep e =
     (let (l, t1) = HasLogind e in
      if l then after t1 (executeAction e PKHybridSleepAction PKLogind)
      else let (c, t2) = HasConsoleKit e in
        if c then after (t1 @ t2) (executeAction e PKHybridSleepAction PKConsoleKit)
        else (PK_NO_BACKEND e, t1 @ t2))"

section \<open>Level facts\<close>

definition IsDocked :: "Env \<Rightarrow> bool" where
  "IsDocked e =
     (if logind_isValid e then LOGIND_DOCKED e
      else if upower_isValid e then UPOWER_DOCKED e
      else False)"

definition LidIsPresent :: "Env \<Rightarrow> bool" where
  "LidIsPresent e = (if upower_isValid e then UPOWER_LID_IS_PRESENT e else False)"

definition LidIsClosed :: "Env \<Rightarrow> bool" where
  "LidIsClosed e = (if upower_isValid e then UPOWER_LID_IS_CLOSED e else False)"

definition OnBattery :: "Env \<Rightarrow> bool" where
  "OnBattery e = (if upower_isValid e then UPOWER_ON_BATTERY e else False)"

text \<open>
  \<open>deviceChanged\<close> compares each cached level with the fresh reading, emits the edge
  signal, stores the reading, and ends with \<open>UpdatedDevices\<close>. The older class
  \<open>Power\<close> of \<^verbatim>\<open>src/lib/power.cpp\<close> has the same function, statement for statement.
\<close>

definition deviceChanged :: "Env \<Rightarrow> PowerKit \<Rightarrow> PowerKit \<times> Signal list" where
  "deviceChanged e s =
     (let ev1 = (if wasLidClosed s \<noteq> LidIsClosed e then
                   (if \<not> wasLidClosed s \<and> LidIsClosed e then [LidClosed]
                    else if wasLidClosed s \<and> \<not> LidIsClosed e then [LidOpened]
                    else [])
                 else []);
          s1 = s\<lparr>wasLidClosed := LidIsClosed e\<rparr>;
          ev2 = (if wasOnBattery s1 \<noteq> OnBattery e then
                   (if \<not> wasOnBattery s1 \<and> OnBattery e then [SwitchedToBattery]
                    else if wasOnBattery s1 \<and> \<not> OnBattery e then [SwitchedToAC]
                    else [])
                 else []);
          s2 = s1\<lparr>wasOnBattery := OnBattery e\<rparr>
      in (s2, ev1 @ ev2 @ [UpdatedDevices]))"

definition handleDeviceChanged :: "Env \<Rightarrow> string \<Rightarrow> PowerKit \<Rightarrow> PowerKit \<times> Signal list" where
  "handleDeviceChanged e device s = (if device = [] then (s, []) else deviceChanged e s)"


section \<open>Device registry\<close>

text \<open>
  \<open>find\<close> asks the bus to introspect the device directory. \<open>introspect e\<close> is
  \<open>None\<close> when the reply is an error, and otherwise the \<open>name\<close> attribute of every
  \<open>node\<close> element of the answer (empty when the attribute is missing).
\<close>

definition find_devices :: "Env \<Rightarrow> string list" where
  "find_devices e =
     (case introspect e of
        None \<Rightarrow> []
      | Some names \<Rightarrow> map (\<lambda>name. UPOWER_DEVICES e @ name) (filter (\<lambda>name. name \<noteq> []) names))"

definition contains :: "(string \<times> Device) list \<Rightarrow> string \<Rightarrow> bool" where
  "contains ds k = (map_of ds k \<noteq> None)"

definition UpdateDevices :: "Env \<Rightarrow> PowerKit \<Rightarrow> PowerKit" where
  "UpdateDevices e s = s\<lparr>devices := map (\<lambda>(k, d). (k, Device_update e d)) (devices s)\<rparr>"

definition UpdateBattery :: "Env \<Rightarrow> PowerKit \<Rightarrow> PowerKit" where
  "UpdateBattery e s =
     s\<lparr>devices := map (\<lambda>(k, d). (k, if isBattery d then Device_updateBattery e d else d))
                      (devices s)\<rparr>"

fun scan_loop :: "Env \<Rightarrow> string list \<Rightarrow> (string \<times> Device) list \<Rightarrow> (string \<times> Device) list" where
  "scan_loop e [] ds = ds"
| "scan_loop e (foundDevicePath # foundDevices) ds =
     (if contains ds foundDevicePath then scan_loop e foundDevices ds
      else scan_loop e foundDevices (AList.update foundDevicePath (Device_new e foundDevicePath) ds))"

definition scan :: "Env \<Rightarrow> PowerKit \<Rightarrow> PowerKit \<times> Signal list" where
  "scan e s =
     (let s1 = s\<lparr>devices := scan_loop e (find_devices e) (devices s)\<rparr>;
          s2 = UpdateDevices e s1
      in (s2, [UpdatedDevices]))"

definition deviceAdded :: "Env \<Rightarrow> string \<Rightarrow> PowerKit \<Rightarrow> PowerKit \<times> Signal list" where
  "deviceAdded e p s =
     (if \<not> upower_isValid e then (s, [])
      else if prefix (DBUS_JOBS_UPOWER_PATH e) p then (s, [])
      else let (s1, ev) = scan e s in (s1, DeviceWasAdded p # ev))"

definition deviceRemoved :: "Env \<Rightarrow> string \<Rightarrow> PowerKit \<Rightarrow> PowerKit \<times> Signal list" where
  "deviceRemoved e p s =
     (if \<not> upower_isValid e then (s, [])
      else
        let deviceExists = contains (devices s) p in
        if prefix (DBUS_JOBS_UPOWER_PATH e) p then (s, [])
        else if deviceExists then
          (if p \<in> set (find_devices e) then (s, [])
           else
             let s1 = s\<lparr>devices := AList.delete p (devices s)\<rparr>;
                 (s2, ev) = scan e s1
             in (s2, DeviceWasRemoved p # ev))
        else scan e s)"

section \<open>Aggregate queries\<close>

text \<open>
  The loops run over the entries of \<open>devices\<close>; the accumulators are the local variables
  of the C++ functions. \<open>double_div x n\<close> is the double division of a finite \<open>x\<close> by
  the integer \<open>n\<close>: a zero divisor gives an infinity, or NaN when \<open>x\<close> is zero too.
\<close>

definition double_div :: "real \<Rightarrow> int \<Rightarrow> double" where
  "double_div x n =
     (if n \<noteq> 0 then Finite (x / real_of_int n)
      else if x = 0 then NaN
      else if 0 < x then PosInf else NegInf)"

fun BatteryLeft_loop :: "(string \<times> Device) list \<Rightarrow> real \<times> int \<Rightarrow> real \<times> int" where
  "BatteryLeft_loop [] (batteryLeft, batteries) = (batteryLeft, batteries)"
| "BatteryLeft_loop ((k, d) # ds) (batteryLeft, batteries) =
     (if isBattery d \<and> isPresent d \<and> nativePath d \<noteq> []
      then BatteryLeft_loop ds (batteryLeft + percentage d, batteries + 1)
      else BatteryLeft_loop ds (batteryLeft, batteries))"

definition BatteryLeft :: "Env \<Rightarrow> PowerKit \<Rightarrow> double \<times> PowerKit" where
  "BatteryLeft e s =
     (let s1 = (if OnBattery e then UpdateBattery e s else s);
          (batteryLeft, batteries) = BatteryLeft_loop (devices s1) (0, 0)
      in (double_div batteryLeft batteries, s1))"

fun HasBattery_loop :: "(string \<times> Device) list \<Rightarrow> bool" where
  "HasBattery_loop [] = False"
| "HasBattery_loop ((k, d) # ds) = (if isBattery d then True else HasBattery_loop ds)"

definition HasBattery :: "PowerKit \<Rightarrow> bool" where
  "HasBattery s = HasBattery_loop (devices s)"

fun TimeToEmpty_loop :: "(string \<times> Device) list \<Rightarrow> 64 word \<Rightarrow> 64 word" where
  "TimeToEmpty_loop [] result = result"
| "TimeToEmpty_loop ((k, d) # ds) result =
     (if isBattery d \<and> isPresent d \<and> nativePath d \<noteq> []
      then TimeToEmpty_loop ds (result + timeToEmpty d)
      else TimeToEmpty_loop ds result)"

definition TimeToEmpty :: "Env \<Rightarrow> PowerKit \<Rightarrow> 64 word \<times> PowerKit" where
  "TimeToEmpty e s =
     (let s1 = (if OnBattery e then UpdateBattery e s else s)
      in (TimeToEmpty_loop (devices s1) 0, s1))"

fun TimeToFull_loop :: "(string \<times> Device) list \<Rightarrow> 64 word \<Rightarrow> 64 word" where
  "TimeToFull_loop [] result = result"
| "TimeToFull_loop ((k, d) # ds) result =
     (if isBattery d \<and> isPresent d \<and> nativePath d \<noteq> []
      then TimeToFull_loop ds (result + timeToFull d)
      else TimeToFull_loop ds result)"

definition TimeToFull :: "Env \<Rightarrow> PowerKit \<Rightarrow> 64 word \<times> PowerKit" where
  "TimeToFull e s =
     (let s1 = (if OnBattery e then UpdateBattery e s else s)
      in (TimeToFull_loop (devices s1) 0, s1))"

section \<open>Concrete inputs\<close>

text \<open>
  Replies to a capability query: the boolean \<open>False\<close>, the string \<^verbatim>\<open>yes\<close>, and the
  string \<^verbatim>\<open>no\<close> with which logind and ConsoleKit refuse.
\<close>

definition no_reply :: Reply where
  "no_reply = \<lparr>arguments_first = QBool False, errorMessage = []\<rparr>"

definition yes_reply :: Reply where
  "yes_reply = \<lparr>arguments_first = QString ''yes'', errorMessage = []\<rparr>"

definition string_no_reply :: Reply where
  "string_no_reply = \<lparr>arguments_first = QString ''no'', errorMessage = []\<rparr>"

definition blank_device :: "string \<Rightarrow> Device" where
  "blank_device p = \<lparr>path = p, isBattery = False, isPresent = False, nativePath = [],
     percentage = 0, timeToEmpty = 0, timeToFull = 0\<rparr>"

definition battery :: "string \<Rightarrow> string \<Rightarrow> real \<Rightarrow> Device" where
  "battery p n pc = \<lparr>path = p, isBattery = True, isPresent = True, nativePath = n,
     percentage = pc, timeToEmpty = 600, timeToFull = 0\<rparr>"

text \<open>
  A machine on AC with logind and UPower reachable, ConsoleKit absent; UPower lists one
  battery and the mains adapter. Refreshing a device leaves it as it is.
\<close>

definition env_ac :: Env where
  "env_ac = \<lparr>upower_isValid = True, logind_isValid = True, LOGIND_DOCKED = True,
     UPOWER_DOCKED = False, UPOWER_LID_IS_PRESENT = True, UPOWER_LID_IS_CLOSED = False,
     UPOWER_ON_BATTERY = False,
     iface_isValid = (\<lambda>b. b = PKLogind \<or> b = PKUPower),
     call_method = (\<lambda>b m. if b = PKUPower then yes_reply else no_reply),
     call_action = (\<lambda>b a. []),
     introspect = Some [''battery_BAT0'', ''line_power_AC''],
     DBUS_OK_REPLY = ''yes'', PK_NO_BACKEND = ''no backend'', PK_NO_ACTION = ''no action'',
     DBUS_FAILED_CONN = ''no connection'', UPOWER_DEVICES = ''/UPower/devices/'',
     DBUS_JOBS_UPOWER_PATH = ''/UPower/jobs'',
     Device_new = blank_device, Device_update = (\<lambda>d. d), Device_updateBattery = (\<lambda>d. d)\<rparr>"


text \<open>The same machine when a refresh reads 60 percent from every device.\<close>

definition env_refresh :: Env where
  "env_refresh = env_ac\<lparr>Device_update := (\<lambda>d. d\<lparr>percentage := 60\<rparr>)\<rparr>"

text \<open>No backend reachable at all.\<close>

definition env_none :: Env where
  "env_none = env_ac\<lparr>upower_isValid := False, logind_isValid := False,
     iface_isValid := (\<lambda>b. False), introspect := None\<rparr>"

text \<open>The machine of \<open>env_ac\<close> when every action call is refused by the backend.\<close>

definition env_denied :: Env where
  "env_denied = env_ac\<lparr>call_action := (\<lambda>b a. ''denied'')\<rparr>"

text \<open>Only UPower reachable.\<close>

definition env_upower :: Env where
  "env_upower = env_ac\<lparr>logind_isValid := False, iface_isValid := (\<lambda>b. b = PKUPower)\<rparr>"

text \<open>The machine of \<open>env_ac\<close> after the battery has been taken out of UPower's list.\<close>

definition env_gone :: Env where
  "env_gone = env_ac\<lparr>introspect := Some [''line_power_AC'']\<rparr>"

text \<open>Only ConsoleKit reachable, and it reports that suspend is possible.\<close>

definition env_ck :: Env where
  "env_ck = env_ac\<lparr>upower_isValid := False, logind_isValid := False,
     iface_isValid := (\<lambda>b. b = PKConsoleKit), call_method := (\<lambda>b m. yes_reply)\<rparr>"

text \<open>
  The machine of \<open>env_ac\<close> when logind answers every capability query with the string
  \<^verbatim>\<open>no\<close>; UPower would allow suspend and hibernate.
\<close>

definition env_logind_no :: Env where
  "env_logind_no = env_ac\<lparr>call_method :=
     (\<lambda>b m. if b = PKUPower then yes_reply else string_no_reply)\<rparr>"

definition pk_init :: PowerKit where
  "pk_init = \<lparr>devices = [], wasDocked = False, wasLidClosed = False, wasOnBattery = False,
     ssInhibitors = Map.empty, pmInhibitors = Map.empty\<rparr>"

definition pk_bat0 :: PowerKit where
  "pk_bat0 = pk_init\<lparr>devices :=
     [(''/UPower/devices/battery_BAT0'', battery ''/UPower/devices/battery_BAT0'' ''BAT0'' 40)]\<rparr>"

definition pk_two :: PowerKit where
  "pk_two = pk_init\<lparr>devices :=
     [(''/UPower/devices/battery_BAT0'', battery ''/UPower/devices/battery_BAT0'' ''BAT0'' 40),
      (''/UPower/devices/battery_BAT1'', battery ''/UPower/devices/battery_BAT1'' ''BAT1'' 60)]\<rparr>"

definition pk_nopath :: PowerKit where
  "pk_nopath = pk_init\<lparr>devices :=
     [(''/UPower/devices/battery_BAT0'', battery ''/UPower/devices/battery_BAT0'' [] 40)]\<rparr>"

text \<open>A ledger in which cookie 7 is registered in both tables.\<close>

definition pk_inh :: PowerKit where
  "pk_inh = pk_init\<lparr>ssInhibitors := [7 \<mapsto> ''player''], pmInhibitors := [7 \<mapsto> ''player'']\<rparr>"

section \<open>Edge events as the specification words them\<close>






section \<open>Qualifying devices as the specification words them\<close>

text \<open>
  A device qualifies for the aggregates when it is a battery, is present and has a
  native path. \<open>as_aggregated\<close> is a device as the aggregate loops see it: on battery
  power the queries first run \<open>UpdateBattery\<close>, which refreshes every battery device.
\<close>

definition qualifies :: "Device \<Rightarrow> bool" where
  "qualifies d = (isBattery d \<and> isPresent d \<and> nativePath d \<noteq> [])"

definition as_aggregated :: "Env \<Rightarrow> Device \<Rightarrow> Device" where
  "as_aggregated e d = (if OnBattery e \<and> isBattery d then Device_updateBattery e d else d)"

section \<open>Backend selection as the specification words it\<close>

text \<open>
  A capability is resolved over a fixed priority list of backends, each with the query it
  understands: the backends are addressed in order, the first one that can be addressed
  answers, and with none the answer is \<open>False\<close>. An action is resolved the same way,
  with the ``no backend'' text when none can be addressed.
\<close>

definition backend_of :: "BusCall \<Rightarrow> PKBackend" where
  "backend_of c = (case c of Probe b \<Rightarrow> b | MethodCall b m \<Rightarrow> b | ActionCall b a i \<Rightarrow> b)"

definition is_MethodCall :: "BusCall \<Rightarrow> bool" where
  "is_MethodCall c = (case c of MethodCall b m \<Rightarrow> True | _ \<Rightarrow> False)"

fun spec_capability :: "Env \<Rightarrow> (PKBackend \<times> PKMethod) list \<Rightarrow> bool \<times> BusCall list" where
  "spec_capability e [] = (False, [])"
| "spec_capability e ((b, m) # rest) =
     (if iface_isValid e b then after [Probe b] (availableAction e m b)
      else after [Probe b] (spec_capability e rest))"

fun spec_action :: "Env \<Rightarrow> PKAction \<Rightarrow> PKBackend list \<Rightarrow> string \<times> BusCall list" where
  "spec_action e a [] = (PK_NO_BACKEND e, [])"
| "spec_action e a (b # rest) =
     (if iface_isValid e b
      then (call_action e b a, [Probe b, Probe b, ActionCall b a (b \<noteq> PKUPower)])
      else after [Probe b] (spec_action e a rest))"

section \<open>Inhibitor tables: upsert and removal\<close>

text \<open>
  C9. In both inhibitor tables, \<open>NewInhibit\<close> stores the application under the cookie
  whatever the table held before (a second registration under the same cookie replaces
  the first, the other cookies and the other table keep their entries), and
  \<open>DelInhibit\<close> removes the entry of a cookie that is present and changes nothing,
  and announces nothing, for a cookie that is absent. Neither handler has a failure
  result.
\<close>

theorem inhibit_upsert_and_remove:
  "fst (handleNewInhibitScreenSaver app reason cookie s)
     = s\<lparr>ssInhibitors := (ssInhibitors s)(cookie \<mapsto> app)\<rparr>
   \<and> fst (handleNewInhibitPowerManagement app reason cookie s)
     = s\<lparr>pmInhibitors := (pmInhibitors s)(cookie \<mapsto> app)\<rparr>
   \<and> ssInhibitors (fst (handleNewInhibitScreenSaver app2 reason2 cookie
        (fst (handleNewInhibitScreenSaver app reason cookie s))))
     = (ssInhibitors s)(cookie \<mapsto> app2)
   \<and> pmInhibitors (fst (handleNewInhibitPowerManagement app2 reason2 cookie
        (fst (handleNewInhibitPowerManagement app reason cookie s))))
     = (pmInhibitors s)(cookie \<mapsto> app2)
   \<and> (ssInhibitors s cookie \<noteq> None \<longrightarrow>
        handleDelInhibitScreenSaver cookie s
          = (s\<lparr>ssInhibitors := (ssInhibitors s)(cookie := None)\<rparr>, [UpdatedInhibitors]))
   \<and> (pmInhibitors s cookie \<noteq> None \<longrightarrow>
        handleDelInhibitPowerManagement cookie s
          = (s\<lparr>pmInhibitors := (pmInhibitors s)(cookie := None)\<rparr>, [UpdatedInhibitors]))
   \<and> (ssInhibitors s cookie = None \<longrightarrow> handleDelInhibitScreenSaver cookie s = (s, []))
   \<and> (pmInhibitors s cookie = None \<longrightarrow> handleDelInhibitPowerManagement cookie s = (s, []))"
  by (simp add: handleNewInhibitScreenSaver_def handleNewInhibitPowerManagement_def
      handleDelInhibitScreenSaver_def handleDelInhibitPowerManagement_def)

theorem inhibit_upsert_and_remove_witness:
  "ssInhibitors pk_inh 7 \<noteq> None \<and> pmInhibitors pk_inh 7 \<noteq> None
   \<and> ssInhibitors pk_init 7 = None \<and> pmInhibitors pk_init 7 = None
   \<and> ssInhibitors (fst (handleDelInhibitScreenSaver 7 pk_inh)) 7 = None
   \<and> pmInhibitors (fst (handleDelInhibitPowerManagement 7 pk_inh)) 7 = None
   \<and> handleDelInhibitScreenSaver 7 pk_init = (pk_init, [])
   \<and> handleDelInhibitPowerManagement 7 pk_init = (pk_init, [])"
  using inhibit_upsert_and_remove [where s = pk_inh and cookie = 7]
    inhibit_upsert_and_remove [where s = pk_init and cookie = 7]
  by (simp add: pk_inh_def pk_init_def)

section \<open>Level facts become edge events\<close>










text \<open>
  C6, as the code has it. After a \<open>deviceChanged\<close> call \<open>wasLidClosed\<close> and
  \<open>wasOnBattery\<close> hold the readings of that call, whatever was emitted; \<open>wasDocked\<close> is
  not assigned and keeps the value it had.
\<close>

theorem caches_after_deviceChanged:
  "wasLidClosed (fst (deviceChanged e s)) = LidIsClosed e
   \<and> wasOnBattery (fst (deviceChanged e s)) = OnBattery e
   \<and> wasDocked (fst (deviceChanged e s)) = wasDocked s"
  by (simp add: deviceChanged_def Let_def)

text \<open>
  On a docked machine whose cache says undocked, the call leaves \<open>wasDocked\<close> different
  from the docked state it could have read.
\<close>

theorem wasDocked_not_refreshed:
  "IsDocked env_ac \<and> \<not> wasDocked pk_init \<and> \<not> wasDocked (fst (deviceChanged env_ac pk_init))"
  by (simp add: deviceChanged_def Let_def IsDocked_def env_ac_def pk_init_def)

section \<open>Capability queries and actions\<close>

lemmas has_defs = HasLogind_def HasConsoleKit_def HasUPower_def availableService_def after_def

text \<open>
  What \<open>availableAction\<close> makes of the reply of a backend that can be addressed: the
  answer is true when the first argument prints as \<open>DBUS_OK_REPLY\<close>, and otherwise when
  the reply has no error message and the first argument converts to true.
\<close>

lemma availableAction_answer:
  assumes "backend \<noteq> PKNoBackend" and "method \<noteq> PKNoMethod" and "iface_isValid e backend"
  shows "fst (availableAction e method backend) =
           (QVariant_toString (arguments_first (call_method e backend method)) = DBUS_OK_REPLY e
            \<or> (errorMessage (call_method e backend method) = []
                \<and> QVariant_toBool (arguments_first (call_method e backend method))))"
  using assms by (simp add: availableAction_def Let_def)

text \<open>
  A string reply other than \<open>DBUS_OK_REPLY\<close> is not read as a refusal: unless its
  lower-case content is empty, \<^verbatim>\<open>0\<close> or \<^verbatim>\<open>false\<close>, the answer is true.
\<close>

lemma availableAction_string_reply:
  assumes "backend \<noteq> PKNoBackend" and "method \<noteq> PKNoMethod" and "iface_isValid e backend"
    and "call_method e backend method = \<lparr>arguments_first = QString s, errorMessage = []\<rparr>"
  shows "fst (availableAction e method backend) =
           (s = DBUS_OK_REPLY e
            \<or> \<not> (toLower s = [] \<or> toLower s = ''0'' \<or> toLower s = ''false''))"
  using assms
  by (simp add: availableAction_def Let_def QVariant_toString_def QVariant_toBool_def)

text \<open>
  The order of the queries. Each capability query addresses the backends of its list in
  order and hands the reply of the first one that can be addressed to
  \<open>availableAction\<close>: \<open>CanSuspend\<close> and \<open>CanHibernate\<close> address logind, then
  ConsoleKit, then UPower; \<open>CanRestart\<close>, \<open>CanPowerOff\<close> and \<open>CanHybridSleep\<close> make
  no call to UPower; a query is \<open>False\<close> when no backend of its list can be addressed.
\<close>

lemma capability_priority:

  "CanSuspend e = spec_capability e
     [(PKLogind, PKCanSuspend), (PKConsoleKit, PKCanSuspend), (PKUPower, PKSuspendAllowed)]
   \<and> CanHibernate e = spec_capability e
     [(PKLogind, PKCanHibernate), (PKConsoleKit, PKCanHibernate), (PKUPower, PKHibernateAllowed)]
   \<and> CanRestart e = spec_capability e [(PKLogind, PKCanRestart), (PKConsoleKit, PKCanRestart)]
   \<and> CanPowerOff e = spec_capability e [(PKLogind, PKCanPowerOff), (PKConsoleKit, PKCanPowerOff)]
   \<and> CanHybridSleep e = spec_capability e
     [(PKLogind, PKCanHybridSleep), (PKConsoleKit, PKCanHybridSleep)]
   \<and> (iface_isValid e PKLogind \<longrightarrow>
        fst (CanSuspend e) = fst (availableAction e PKCanSuspend PKLogind)
        \<and> fst (CanHibernate e) = fst (availableAction e PKCanHibernate PKLogind))
   \<and> (\<not> iface_isValid e PKLogind \<and> iface_isValid e PKConsoleKit \<longrightarrow>
        fst (CanSuspend e) = fst (availableAction e PKCanSuspend PKConsoleKit)
        \<and> fst (CanHibernate e) = fst (availableAction e PKCanHibernate PKConsoleKit))
   \<and> (\<not> iface_isValid e PKLogind \<and> \<not> iface_isValid e PKConsoleKit \<and> iface_isValid e PKUPower \<longrightarrow>
        fst (CanSuspend e) = fst (availableAction e PKSuspendAllowed PKUPower)
        \<and> fst (CanHibernate e) = fst (availableAction e PKHibernateAllowed PKUPower))
   \<and> (\<forall>c \<in> set (snd (CanRestart e) @ snd (CanPowerOff e) @ snd (CanHybridSleep e)).
        backend_of c \<noteq> PKUPower)
   \<and> (\<not> iface_isValid e PKLogind \<and> \<not> iface_isValid e PKConsoleKit \<longrightarrow>
        \<not> fst (CanRestart e) \<and> \<not> fst (CanPowerOff e) \<and> \<not> fst (CanHybridSleep e))
   \<and> (\<not> iface_isValid e PKLogind \<and> \<not> iface_isValid e PKConsoleKit \<and> \<not> iface_isValid e PKUPower \<longrightarrow>
        \<not> fst (CanSuspend e) \<and> \<not> fst (CanHibernate e))"
proof -
  have susp: "CanSuspend e = spec_capability e
     [(PKLogind, PKCanSuspend), (PKConsoleKit, PKCanSuspend), (PKUPower, PKSuspendAllowed)]"
    by (simp add: CanSuspend_def has_defs)
  have hib: "CanHibernate e = spec_capability e
     [(PKLogind, PKCanHibernate), (PKConsoleKit, PKCanHibernate), (PKUPower, PKHibernateAllowed)]"
    by (simp add: CanHibernate_def has_defs)
  have rest: "CanRestart e = spec_capability e [(PKLogind, PKCanRestart), (PKConsoleKit, PKCanRestart)]"
    by (simp add: CanRestart_def has_defs)
  have off: "CanPowerOff e = spec_capability e [(PKLogind, PKCanPowerOff), (PKConsoleKit, PKCanPowerOff)]"
    by (simp add: CanPowerOff_def has_defs)
  have hyb: "CanHybridSleep e = spec_capability e
     [(PKLogind, PKCanHybridSleep), (PKConsoleKit, PKCanHybridSleep)]"
    by (simp add: CanHybridSleep_def has_defs)
  have no_upower: "\<forall>c \<in> set (snd (CanRestart e) @ snd (CanPowerOff e) @ snd (CanHybridSleep e)).
        backend_of c \<noteq> PKUPower"
    unfolding rest off hyb
    by (simp add: after_def availableAction_def backend_of_def Let_def)
  show ?thesis
    using no_upower
    by (simp add: susp hib rest off hyb after_def)
qed

lemma capability_priority_example:
  "iface_isValid env_ac PKLogind
   \<and> \<not> fst (availableAction env_ac PKCanSuspend PKLogind)
   \<and> fst (availableAction env_ac PKSuspendAllowed PKUPower)
   \<and> \<not> fst (CanSuspend env_ac)
   \<and> \<not> iface_isValid env_upower PKLogind \<and> \<not> iface_isValid env_upower PKConsoleKit
   \<and> iface_isValid env_upower PKUPower
   \<and> fst (CanSuspend env_upower) \<and> \<not> fst (CanRestart env_upower)
   \<and> snd (CanRestart env_upower) = [Probe PKLogind, Probe PKConsoleKit]
   \<and> \<not> iface_isValid env_ck PKLogind \<and> iface_isValid env_ck PKConsoleKit
   \<and> fst (CanSuspend env_ck)
   \<and> snd (CanSuspend env_ck)
       = [Probe PKLogind, Probe PKConsoleKit, Probe PKConsoleKit,
          MethodCall PKConsoleKit PKCanSuspend]
   \<and> \<not> iface_isValid env_none PKUPower \<and> \<not> fst (CanHibernate env_none)"
  using capability_priority [of env_ac] capability_priority [of env_upower]
    capability_priority [of env_ck] capability_priority [of env_none]
  by (simp add: availableAction_def after_def env_ac_def env_upower_def env_ck_def env_none_def
      yes_reply_def no_reply_def QVariant_toString_def QVariant_toBool_def)

text \<open>
  C7 at the input where it fails. Logind can be addressed and answers the suspend and
  the hibernate query with the string \<^verbatim>\<open>no\<close>, without an error. The string is not
  \<open>DBUS_OK_REPLY\<close>, so \<open>availableAction\<close> converts it to a boolean, and the
  conversion of \<^verbatim>\<open>no\<close> is true: \<open>CanSuspend\<close> and \<open>CanHibernate\<close> are true although
  the first reachable backend refused.
\<close>

theorem CanSuspend_true_on_string_no:
  "iface_isValid env_logind_no PKLogind
   \<and> call_method env_logind_no PKLogind PKCanSuspend
       = \<lparr>arguments_first = QString ''no'', errorMessage = []\<rparr>
   \<and> call_method env_logind_no PKLogind PKCanHibernate
       = \<lparr>arguments_first = QString ''no'', errorMessage = []\<rparr>
   \<and> DBUS_OK_REPLY env_logind_no = ''yes''
   \<and> QVariant_toBool (QString ''no'')
   \<and> fst (CanSuspend env_logind_no)
   \<and> snd (CanSuspend env_logind_no)
       = [Probe PKLogind, Probe PKLogind, MethodCall PKLogind PKCanSuspend]
   \<and> fst (CanHibernate env_logind_no)"
  by (simp add: CanSuspend_def CanHibernate_def availableAction_def has_defs Let_def
      env_logind_no_def env_ac_def string_no_reply_def yes_reply_def
      QVariant_toString_def QVariant_toBool_def toLower_def)

text \<open>
  C3, as the code has it. An action addresses the backends of its priority list in order
  and calls the action on the first one that can be addressed, returning the error
  message of that call (empty on success); no capability query is made on the way, and
  the ``no backend'' text is returned only when no backend of the list can be addressed.
\<close>

theorem action_without_capability_check:
  "Restart e = spec_action e PKRestartAction [PKLogind, PKConsoleKit]
   \<and> PowerOff e = spec_action e PKPowerOffAction [PKLogind, PKConsoleKit]
   \<and> Suspend e = spec_action e PKSuspendAction [PKLogind, PKConsoleKit, PKUPower]
   \<and> Hibernate e = spec_action e PKHibernateAction [PKLogind, PKConsoleKit, PKUPower]
   \<and> HybridSleep e = spec_action e PKHybridSleepAction [PKLogind, PKConsoleKit]
   \<and> (\<forall>c \<in> set (snd (Restart e) @ snd (PowerOff e) @ snd (Suspend e) @ snd (Hibernate e)
          @ snd (HybridSleep e)). \<not> is_MethodCall c)
   \<and> (iface_isValid e PKLogind \<longrightarrow>
        Suspend e = (call_action e PKLogind PKSuspendAction,
          [Probe PKLogind, Probe PKLogind, ActionCall PKLogind PKSuspendAction True]))
   \<and> (\<not> iface_isValid e PKLogind \<and> \<not> iface_isValid e PKConsoleKit \<and> \<not> iface_isValid e PKUPower \<longrightarrow>
        Suspend e = (PK_NO_BACKEND e, [Probe PKLogind, Probe PKConsoleKit, Probe PKUPower]))"
proof -
  have r: "Restart e = spec_action e PKRestartAction [PKLogind, PKConsoleKit]"
    by (simp add: Restart_def executeAction_def has_defs)
  have p: "PowerOff e = spec_action e PKPowerOffAction [PKLogind, PKConsoleKit]"
    by (simp add: PowerOff_def executeAction_def has_defs)
  have s: "Suspend e = spec_action e PKSuspendAction [PKLogind, PKConsoleKit, PKUPower]"
    by (simp add: Suspend_def executeAction_def has_defs)
  have h: "Hibernate e = spec_action e PKHibernateAction [PKLogind, PKConsoleKit, PKUPower]"
    by (simp add: Hibernate_def executeAction_def has_defs)
  have y: "HybridSleep e = spec_action e PKHybridSleepAction [PKLogind, PKConsoleKit]"
    by (simp add: HybridSleep_def executeAction_def has_defs)
  have no_query: "\<forall>c \<in> set (snd (Restart e) @ snd (PowerOff e) @ snd (Suspend e)
      @ snd (Hibernate e) @ snd (HybridSleep e)). \<not> is_MethodCall c"
    unfolding r p s h y by (simp add: after_def is_MethodCall_def)
  show ?thesis
    using no_query by (simp add: r p s h y after_def)
qed

theorem action_without_capability_check_witness:
  "iface_isValid env_denied PKLogind
   \<and> Suspend env_denied = (''denied'',
        [Probe PKLogind, Probe PKLogind, ActionCall PKLogind PKSuspendAction True])
   \<and> list_all (\<lambda>c. \<not> is_MethodCall c) (snd (Suspend env_denied))
   \<and> \<not> iface_isValid env_none PKLogind \<and> \<not> iface_isValid env_none PKConsoleKit
   \<and> \<not> iface_isValid env_none PKUPower
   \<and> fst (Suspend env_none) = ''no backend''"
  using action_without_capability_check [of env_denied]
    action_without_capability_check [of env_none]
  by (simp add: env_denied_def env_ac_def env_none_def is_MethodCall_def after_def)

text \<open>
  With logind reachable and answering that suspend is not possible, \<open>CanSuspend\<close> is
  false, and still \<open>Suspend\<close> calls the action on logind and hands the failure of that
  call to the caller, not the ``no backend'' text.
\<close>

theorem suspend_called_though_incapable:
  "\<not> fst (CanSuspend env_denied)
   \<and> ActionCall PKLogind PKSuspendAction True \<in> set (snd (Suspend env_denied))
   \<and> fst (Suspend env_denied) = ''denied''
   \<and> fst (Suspend env_denied) \<noteq> PK_NO_BACKEND env_denied"
  by (simp add: CanSuspend_def Suspend_def availableAction_def executeAction_def has_defs
      env_denied_def env_ac_def no_reply_def QVariant_toString_def QVariant_toBool_def)

section \<open>Scanning, adding and removing devices\<close>

lemma contains_update:
  "contains (AList.update k v ds) k' = (k' = k \<or> contains ds k')"
  by (simp add: contains_def update_conv')

lemma contains_delete:
  "contains (AList.delete k ds) k' = (k' \<noteq> k \<and> contains ds k')"
  by (simp add: contains_def delete_conv')

lemma map_of_scan_loop:
  "map_of (scan_loop e fs ds) k =
     (case map_of ds k of
        Some d \<Rightarrow> Some d
      | None \<Rightarrow> if k \<in> set fs then Some (Device_new e k) else None)"
proof (induction fs arbitrary: ds)
  case Nil
  show ?case by (simp split: option.split)
next
  case (Cons f fs)
  show ?case
  proof (cases "contains ds f")
    case True
    then have "map_of ds f \<noteq> None" by (simp add: contains_def)
    with True Cons.IH [of ds] show ?thesis
      by (auto split: option.split)
  next
    case False
    then have none: "map_of ds f = None" by (simp add: contains_def)
    from False have "map_of (scan_loop e (f # fs) ds) k
        = map_of (scan_loop e fs (AList.update f (Device_new e f) ds)) k"
      by simp
    also have "\<dots> = (case ((map_of ds)(f \<mapsto> Device_new e f)) k of
        Some d \<Rightarrow> Some d
      | None \<Rightarrow> if k \<in> set fs then Some (Device_new e k) else None)"
      by (simp add: Cons.IH update_conv')
    also have "\<dots> = (case map_of ds k of
        Some d \<Rightarrow> Some d
      | None \<Rightarrow> if k \<in> set (f # fs) then Some (Device_new e k) else None)"
      using none by (auto split: option.split)
    finally show ?thesis .
  qed
qed

lemma map_of_UpdateDevices:
  "map_of (devices (UpdateDevices e s)) k = map_option (Device_update e) (map_of (devices s) k)"
  by (simp add: UpdateDevices_def map_of_map)

lemma map_of_scan:
  "map_of (devices (fst (scan e s))) k =
     (case map_of (devices s) k of
        Some d \<Rightarrow> Some (Device_update e d)
      | None \<Rightarrow> if k \<in> set (find_devices e)
                then Some (Device_update e (Device_new e k)) else None)"
  by (simp add: scan_def Let_def map_of_UpdateDevices map_of_scan_loop split: option.split)

lemma contains_scan:
  "contains (devices (fst (scan e s))) k = (contains (devices s) k \<or> k \<in> set (find_devices e))"
  by (simp add: contains_def map_of_scan split: option.split)

lemma scan_signals: "snd (scan e s) = [UpdatedDevices]"
  by (simp add: scan_def Let_def)

lemma scan_frame: "fst (scan e s) = s\<lparr>devices := devices (fst (scan e s))\<rparr>"
  by (simp add: scan_def Let_def UpdateDevices_def)

text \<open>
  C4, as the code has it. \<open>scan\<close> creates a \<open>Device\<close> for each id of the backend's list
  that is not tracked, drops none, and then calls \<open>update\<close> on every tracked \<open>Device\<close>,
  the ones that were there before included; it ends with \<open>UpdatedDevices\<close> and changes
  no other field.
\<close>

theorem scan_adds_and_refreshes:
  "map_of (devices (fst (scan e s))) k =
     (case map_of (devices s) k of
        Some d \<Rightarrow> Some (Device_update e d)
      | None \<Rightarrow> if k \<in> set (find_devices e)
                then Some (Device_update e (Device_new e k)) else None)
   \<and> snd (scan e s) = [UpdatedDevices]
   \<and> fst (scan e s) = s\<lparr>devices := devices (fst (scan e s))\<rparr>"
  using map_of_scan [of e s k] scan_signals [of e s] scan_frame [of e s] by simp

theorem scan_adds_and_refreshes_witness:
  "map_of (devices pk_bat0) ''/UPower/devices/battery_BAT0''
     = Some (battery ''/UPower/devices/battery_BAT0'' ''BAT0'' 40)
   \<and> map_of (devices (fst (scan env_refresh pk_bat0))) ''/UPower/devices/battery_BAT0''
     = Some (battery ''/UPower/devices/battery_BAT0'' ''BAT0'' 60)
   \<and> map_of (devices pk_bat0) ''/UPower/devices/line_power_AC'' = None
   \<and> map_of (devices (fst (scan env_refresh pk_bat0))) ''/UPower/devices/line_power_AC''
     = Some ((blank_device ''/UPower/devices/line_power_AC'')\<lparr>percentage := 60\<rparr>)
   \<and> map_of (devices (fst (scan env_refresh pk_bat0))) ''/UPower/devices/battery_BAT1'' = None"
  using scan_adds_and_refreshes [of env_refresh pk_bat0 "''/UPower/devices/battery_BAT0''"]
    scan_adds_and_refreshes [of env_refresh pk_bat0 "''/UPower/devices/line_power_AC''"]
    scan_adds_and_refreshes [of env_refresh pk_bat0 "''/UPower/devices/battery_BAT1''"]
  by (simp add: pk_bat0_def pk_init_def env_refresh_def env_ac_def find_devices_def battery_def)

text \<open>
  A tracked battery cached at 40 percent whose backing object now reads 60: after
  \<open>scan\<close> the tracked \<open>Device\<close> holds 60.
\<close>

theorem scan_refreshes_tracked_device:
  "contains (devices pk_bat0) ''/UPower/devices/battery_BAT0''
   \<and> map_option percentage (map_of (devices pk_bat0) ''/UPower/devices/battery_BAT0'') = Some 40
   \<and> map_option percentage
        (map_of (devices (fst (scan env_refresh pk_bat0))) ''/UPower/devices/battery_BAT0'')
      = Some 60"
  by (simp add: scan_def Let_def UpdateDevices_def contains_def find_devices_def pk_bat0_def
      pk_init_def env_refresh_def env_ac_def battery_def)

text \<open>
  C5, as the code has it. For a removal notice that passes the job-path filter while
  UPower is valid: a tracked id that the backend no longer lists is destroyed, its removal
  is announced and a scan follows, after which the id is not tracked; a tracked id that
  the backend still lists stays tracked and the handler returns at once, with no scan and
  no signal; an id that is not tracked leads to a scan only.
\<close>

theorem deviceRemoved_cases:
  assumes "upower_isValid e" and "\<not> prefix (DBUS_JOBS_UPOWER_PATH e) p"
  shows "(contains (devices s) p \<and> p \<notin> set (find_devices e) \<longrightarrow>
            deviceRemoved e p s
              = (fst (scan e (s\<lparr>devices := AList.delete p (devices s)\<rparr>)),
                 [DeviceWasRemoved p, UpdatedDevices])
            \<and> \<not> contains (devices (fst (deviceRemoved e p s))) p)
       \<and> (contains (devices s) p \<and> p \<in> set (find_devices e) \<longrightarrow>
            deviceRemoved e p s = (s, []))
       \<and> (\<not> contains (devices s) p \<longrightarrow> deviceRemoved e p s = scan e s)"
proof -
  have gone: "\<not> contains (devices (fst (scan e (s\<lparr>devices := AList.delete p (devices s)\<rparr>)))) p"
    if "p \<notin> set (find_devices e)"
    using that by (simp add: contains_scan contains_delete)
  have destroyed: "deviceRemoved e p s
      = (fst (scan e (s\<lparr>devices := AList.delete p (devices s)\<rparr>)),
         [DeviceWasRemoved p, UpdatedDevices])"
    if "contains (devices s) p" and "p \<notin> set (find_devices e)"
    using assms that
    by (simp add: deviceRemoved_def Let_def split_beta scan_signals)
  have stale: "deviceRemoved e p s = (s, [])"
    if "contains (devices s) p" and "p \<in> set (find_devices e)"
    using assms that by (simp add: deviceRemoved_def Let_def)
  have untracked: "deviceRemoved e p s = scan e s" if "\<not> contains (devices s) p"
    using assms that by (simp add: deviceRemoved_def Let_def)
  show ?thesis
    using gone destroyed stale untracked by auto
qed

theorem deviceRemoved_cases_witness:
  "upower_isValid env_gone
   \<and> \<not> prefix (DBUS_JOBS_UPOWER_PATH env_gone) ''/UPower/devices/battery_BAT0''
   \<and> contains (devices pk_bat0) ''/UPower/devices/battery_BAT0''
   \<and> ''/UPower/devices/battery_BAT0'' \<notin> set (find_devices env_gone)
   \<and> snd (deviceRemoved env_gone ''/UPower/devices/battery_BAT0'' pk_bat0)
       = [DeviceWasRemoved ''/UPower/devices/battery_BAT0'', UpdatedDevices]
   \<and> \<not> contains (devices (fst (deviceRemoved env_gone ''/UPower/devices/battery_BAT0'' pk_bat0)))
         ''/UPower/devices/battery_BAT0''
   \<and> ''/UPower/devices/battery_BAT0'' \<in> set (find_devices env_ac)
   \<and> deviceRemoved env_ac ''/UPower/devices/battery_BAT0'' pk_bat0 = (pk_bat0, [])
   \<and> \<not> contains (devices pk_init) ''/UPower/devices/battery_BAT0''
   \<and> deviceRemoved env_ac ''/UPower/devices/battery_BAT0'' pk_init = scan env_ac pk_init"
proof -
  have v: "upower_isValid env_gone" "upower_isValid env_ac"
    by (simp_all add: env_gone_def env_ac_def)
  have j: "\<not> prefix (DBUS_JOBS_UPOWER_PATH env_gone) ''/UPower/devices/battery_BAT0''"
    "\<not> prefix (DBUS_JOBS_UPOWER_PATH env_ac) ''/UPower/devices/battery_BAT0''"
    by (simp_all add: env_gone_def env_ac_def)
  have t: "contains (devices pk_bat0) ''/UPower/devices/battery_BAT0''"
    "\<not> contains (devices pk_init) ''/UPower/devices/battery_BAT0''"
    by (simp_all add: contains_def pk_bat0_def pk_init_def)
  have f: "''/UPower/devices/battery_BAT0'' \<notin> set (find_devices env_gone)"
    "''/UPower/devices/battery_BAT0'' \<in> set (find_devices env_ac)"
    by (simp_all add: find_devices_def env_gone_def env_ac_def)
  from deviceRemoved_cases [OF v(1) j(1), of pk_bat0] t f
  have d1: "deviceRemoved env_gone ''/UPower/devices/battery_BAT0'' pk_bat0
      = (fst (scan env_gone (pk_bat0\<lparr>devices :=
           AList.delete ''/UPower/devices/battery_BAT0'' (devices pk_bat0)\<rparr>)),
         [DeviceWasRemoved ''/UPower/devices/battery_BAT0'', UpdatedDevices])"
    and d2: "\<not> contains
      (devices (fst (deviceRemoved env_gone ''/UPower/devices/battery_BAT0'' pk_bat0)))
      ''/UPower/devices/battery_BAT0''"
    by blast+
  from deviceRemoved_cases [OF v(2) j(2), of pk_bat0] t f
  have d3: "deviceRemoved env_ac ''/UPower/devices/battery_BAT0'' pk_bat0 = (pk_bat0, [])"
    by blast
  from deviceRemoved_cases [OF v(2) j(2), of pk_init] t
  have d4: "deviceRemoved env_ac ''/UPower/devices/battery_BAT0'' pk_init = scan env_ac pk_init"
    by blast
  have d5: "snd (deviceRemoved env_gone ''/UPower/devices/battery_BAT0'' pk_bat0)
      = [DeviceWasRemoved ''/UPower/devices/battery_BAT0'', UpdatedDevices]"
    by (simp add: d1)
  show ?thesis
    using v j t f d2 d3 d4 d5 by blast
qed

text \<open>
  A stale removal notice for a tracked battery that UPower still lists, while UPower also
  lists a mains adapter that is not tracked yet: the handler returns without a signal and
  without picking up the adapter, which a scan would have added.
\<close>

theorem stale_removal_without_scan:
  "upower_isValid env_ac
   \<and> \<not> prefix (DBUS_JOBS_UPOWER_PATH env_ac) ''/UPower/devices/battery_BAT0''
   \<and> contains (devices pk_bat0) ''/UPower/devices/battery_BAT0''
   \<and> ''/UPower/devices/battery_BAT0'' \<in> set (find_devices env_ac)
   \<and> deviceRemoved env_ac ''/UPower/devices/battery_BAT0'' pk_bat0 = (pk_bat0, [])
   \<and> \<not> contains (devices (fst (deviceRemoved env_ac ''/UPower/devices/battery_BAT0'' pk_bat0)))
         ''/UPower/devices/line_power_AC''
   \<and> contains (devices (fst (scan env_ac pk_bat0))) ''/UPower/devices/line_power_AC''
   \<and> snd (scan env_ac pk_bat0) = [UpdatedDevices]"
  by (simp add: deviceRemoved_def scan_def Let_def UpdateDevices_def contains_def
      find_devices_def pk_bat0_def pk_init_def env_ac_def)

text \<open>
  C10. A \<open>deviceAdded\<close> notice outside the jobs directory, received while UPower is
  valid, announces \<open>DeviceWasAdded\<close> for its path whatever the tracked set and the
  backend's list are, so a repeated notice announces again; \<open>DeviceWasRemoved\<close> comes
  only from \<open>deviceRemoved\<close>, for its own path, when that path was tracked and is not
  tracked afterwards.
\<close>

theorem added_always_removed_only_when_destroyed:
  "(upower_isValid e \<and> \<not> prefix (DBUS_JOBS_UPOWER_PATH e) p \<longrightarrow>
      snd (deviceAdded e p s) = [DeviceWasAdded p, UpdatedDevices]
      \<and> snd (deviceAdded e p (fst (deviceAdded e p s))) = [DeviceWasAdded p, UpdatedDevices])
   \<and> (DeviceWasRemoved q \<in> set (snd (deviceRemoved e p s)) \<longrightarrow>
      q = p \<and> contains (devices s) p \<and> \<not> contains (devices (fst (deviceRemoved e p s))) p)
   \<and> DeviceWasRemoved q \<notin> set (snd (deviceAdded e p s))
   \<and> DeviceWasRemoved q \<notin> set (snd (scan e s))
   \<and> DeviceWasRemoved q \<notin> set (snd (deviceChanged e s))"
proof -
  have added: "snd (deviceAdded e p s') = [DeviceWasAdded p, UpdatedDevices]"
    if "upower_isValid e" and "\<not> prefix (DBUS_JOBS_UPOWER_PATH e) p" for s'
    using that by (simp add: deviceAdded_def split_beta scan_signals)
  have removed: "q = p \<and> contains (devices s) p
      \<and> \<not> contains (devices (fst (deviceRemoved e p s))) p"
    if r: "DeviceWasRemoved q \<in> set (snd (deviceRemoved e p s))"
  proof -
    from r have c: "upower_isValid e \<and> \<not> prefix (DBUS_JOBS_UPOWER_PATH e) p
        \<and> contains (devices s) p \<and> p \<notin> set (find_devices e)"
      by (auto simp: deviceRemoved_def Let_def scan_signals split: if_splits)
    then have eq: "deviceRemoved e p s
        = (fst (scan e (s\<lparr>devices := AList.delete p (devices s)\<rparr>)),
           [DeviceWasRemoved p, UpdatedDevices])"
      by (simp add: deviceRemoved_def Let_def split_beta scan_signals)
    from r c show ?thesis
      unfolding eq by (simp add: contains_scan contains_delete)
  qed
  have a: "DeviceWasRemoved q \<notin> set (snd (deviceAdded e p s))"
    by (simp add: deviceAdded_def split_beta scan_signals)
  have b: "DeviceWasRemoved q \<notin> set (snd (scan e s))"
    by (simp add: scan_signals)
  have c: "DeviceWasRemoved q \<notin> set (snd (deviceChanged e s))"
    by (simp add: deviceChanged_def Let_def)
  show ?thesis
    using added removed a b c by blast
qed

theorem added_always_removed_only_when_destroyed_witness:
  "upower_isValid env_gone
   \<and> \<not> prefix (DBUS_JOBS_UPOWER_PATH env_gone) ''/UPower/devices/battery_BAT0''
   \<and> contains (devices pk_bat0) ''/UPower/devices/battery_BAT0''
   \<and> ''/UPower/devices/battery_BAT0'' \<notin> set (find_devices env_gone)
   \<and> snd (deviceAdded env_gone ''/UPower/devices/battery_BAT0'' pk_bat0)
       = [DeviceWasAdded ''/UPower/devices/battery_BAT0'', UpdatedDevices]
   \<and> snd (deviceAdded env_gone ''/UPower/devices/battery_BAT0''
        (fst (deviceAdded env_gone ''/UPower/devices/battery_BAT0'' pk_bat0)))
       = [DeviceWasAdded ''/UPower/devices/battery_BAT0'', UpdatedDevices]
   \<and> DeviceWasRemoved ''/UPower/devices/battery_BAT0''
       \<in> set (snd (deviceRemoved env_gone ''/UPower/devices/battery_BAT0'' pk_bat0))
   \<and> \<not> contains (devices (fst (deviceRemoved env_gone ''/UPower/devices/battery_BAT0'' pk_bat0)))
         ''/UPower/devices/battery_BAT0''"
proof -
  have v: "upower_isValid env_gone"
    by (simp add: env_gone_def env_ac_def)
  have j: "\<not> prefix (DBUS_JOBS_UPOWER_PATH env_gone) ''/UPower/devices/battery_BAT0''"
    by (simp add: env_gone_def env_ac_def)
  have t: "contains (devices pk_bat0) ''/UPower/devices/battery_BAT0''"
    by (simp add: contains_def pk_bat0_def pk_init_def)
  have f: "''/UPower/devices/battery_BAT0'' \<notin> set (find_devices env_gone)"
    by (simp add: find_devices_def env_gone_def env_ac_def)
  have r: "DeviceWasRemoved ''/UPower/devices/battery_BAT0''
       \<in> set (snd (deviceRemoved env_gone ''/UPower/devices/battery_BAT0'' pk_bat0))"
    using v j t f by (simp add: deviceRemoved_def Let_def split_beta)
  show ?thesis
    using v j t f r
      added_always_removed_only_when_destroyed
        [of env_gone "''/UPower/devices/battery_BAT0''" pk_bat0
            "''/UPower/devices/battery_BAT0''"]
    by simp
qed

section \<open>Aggregates over the device set\<close>

lemma BatteryLeft_loop_sum:
  "BatteryLeft_loop ds (acc, n) =
     (acc + sum_list (map percentage (filter qualifies (map snd ds))),
      n + int (length (filter qualifies (map snd ds))))"
  by (induction ds arbitrary: acc n) (auto simp: qualifies_def)

lemma TimeToEmpty_loop_sum:
  "TimeToEmpty_loop ds acc = acc + sum_list (map timeToEmpty (filter qualifies (map snd ds)))"
  by (induction ds arbitrary: acc) (auto simp: qualifies_def)

lemma TimeToFull_loop_sum:
  "TimeToFull_loop ds acc = acc + sum_list (map timeToFull (filter qualifies (map snd ds)))"
  by (induction ds arbitrary: acc) (auto simp: qualifies_def)

lemma HasBattery_loop_ex: "HasBattery_loop ds = (\<exists>d \<in> set (map snd ds). isBattery d)"
  by (induction ds) auto

lemma devices_aggregated:
  "map snd (devices (if OnBattery e then UpdateBattery e s else s))
     = map (as_aggregated e) (map snd (devices s))"
  by (simp add: UpdateBattery_def as_aggregated_def split_beta)

text \<open>
  The value of \<open>BatteryLeft\<close>: the mean of the percentages of the qualifying devices
  when there is one, and the quotient of zero by zero when there is none.
\<close>

lemma BatteryLeft_value:
  "fst (BatteryLeft e s) =
     (let qs = filter qualifies (map (as_aggregated e) (map snd (devices s)))
      in if qs = [] then NaN
         else Finite (sum_list (map percentage qs) / real (length qs)))"
proof -
  define s1 where "s1 = (if OnBattery e then UpdateBattery e s else s)"
  define qs where "qs = filter qualifies (map (as_aggregated e) (map snd (devices s)))"
  have q: "filter qualifies (map snd (devices s1)) = qs"
    unfolding qs_def s1_def devices_aggregated ..
  have loop: "BatteryLeft_loop (devices s1) (0, 0) = (sum_list (map percentage qs), int (length qs))"
    unfolding BatteryLeft_loop_sum q by simp
  have "fst (BatteryLeft e s) = double_div (sum_list (map percentage qs)) (int (length qs))"
    unfolding BatteryLeft_def s1_def [symmetric] Let_def loop by simp
  also have "\<dots> = (if qs = [] then NaN else Finite (sum_list (map percentage qs) / real (length qs)))"
    by (simp add: double_div_def)
  finally show ?thesis
    unfolding qs_def Let_def .
qed

lemma TimeToEmpty_value:
  "fst (TimeToEmpty e s) =
     sum_list (map timeToEmpty (filter qualifies (map (as_aggregated e) (map snd (devices s)))))"
proof -
  define s1 where "s1 = (if OnBattery e then UpdateBattery e s else s)"
  have q: "map snd (devices s1) = map (as_aggregated e) (map snd (devices s))"
    unfolding s1_def devices_aggregated ..
  have "fst (TimeToEmpty e s) = TimeToEmpty_loop (devices s1) 0"
    unfolding TimeToEmpty_def s1_def [symmetric] Let_def by simp
  then show ?thesis
    unfolding TimeToEmpty_loop_sum q by simp
qed

lemma TimeToFull_value:
  "fst (TimeToFull e s) =
     sum_list (map timeToFull (filter qualifies (map (as_aggregated e) (map snd (devices s)))))"
proof -
  define s1 where "s1 = (if OnBattery e then UpdateBattery e s else s)"
  have q: "map snd (devices s1) = map (as_aggregated e) (map snd (devices s))"
    unfolding s1_def devices_aggregated ..
  have "fst (TimeToFull e s) = TimeToFull_loop (devices s1) 0"
    unfolding TimeToFull_def s1_def [symmetric] Let_def by simp
  then show ?thesis
    unfolding TimeToFull_loop_sum q by simp
qed

lemma BatteryLeft_two_batteries: "fst (BatteryLeft env_ac pk_two) = Finite 50"
  by (simp add: BatteryLeft_value as_aggregated_def OnBattery_def qualifies_def
      env_ac_def pk_two_def pk_init_def battery_def)

text \<open>
  C1 at the inputs where it fails. With no device tracked, and with a tracked battery
  that has no native path, no device qualifies; \<open>BatteryLeft\<close> then divides the sum
  zero by the count zero, and the result is NaN, not 0.
\<close>

theorem BatteryLeft_zero_by_zero:
  "fst (BatteryLeft env_ac pk_init) = NaN
   \<and> fst (BatteryLeft env_ac pk_nopath) = NaN
   \<and> fst (BatteryLeft env_ac pk_init) \<noteq> Finite 0"
  by (simp add: BatteryLeft_def Let_def OnBattery_def double_div_def
      env_ac_def pk_init_def pk_nopath_def battery_def)

text \<open>
  C8, as the code has it. A \<open>Device\<close> whose native path is empty when the aggregates
  are computed adds nothing to \<open>BatteryLeft\<close>, \<open>TimeToEmpty\<close> and \<open>TimeToFull\<close>: the
  results are those of the device set without it. \<open>HasBattery\<close> looks at \<open>isBattery\<close>
  alone, so such a device makes it true when it is a battery.
\<close>

theorem empty_nativePath_in_aggregates:
  assumes "nativePath (as_aggregated e d) = []"
  shows "fst (BatteryLeft e (s\<lparr>devices := ds1 @ (k, d) # ds2\<rparr>))
           = fst (BatteryLeft e (s\<lparr>devices := ds1 @ ds2\<rparr>))
       \<and> fst (TimeToEmpty e (s\<lparr>devices := ds1 @ (k, d) # ds2\<rparr>))
           = fst (TimeToEmpty e (s\<lparr>devices := ds1 @ ds2\<rparr>))
       \<and> fst (TimeToFull e (s\<lparr>devices := ds1 @ (k, d) # ds2\<rparr>))
           = fst (TimeToFull e (s\<lparr>devices := ds1 @ ds2\<rparr>))
       \<and> HasBattery (s\<lparr>devices := ds1 @ (k, d) # ds2\<rparr>)
           = (isBattery d \<or> HasBattery (s\<lparr>devices := ds1 @ ds2\<rparr>))"
proof -
  have nq: "\<not> qualifies (as_aggregated e d)"
    using assms by (simp add: qualifies_def)
  have b: "fst (BatteryLeft e (s\<lparr>devices := ds1 @ (k, d) # ds2\<rparr>))
      = fst (BatteryLeft e (s\<lparr>devices := ds1 @ ds2\<rparr>))"
    using nq by (simp add: BatteryLeft_value)
  have te: "fst (TimeToEmpty e (s\<lparr>devices := ds1 @ (k, d) # ds2\<rparr>))
      = fst (TimeToEmpty e (s\<lparr>devices := ds1 @ ds2\<rparr>))"
    using nq by (simp add: TimeToEmpty_value)
  have tf: "fst (TimeToFull e (s\<lparr>devices := ds1 @ (k, d) # ds2\<rparr>))
      = fst (TimeToFull e (s\<lparr>devices := ds1 @ ds2\<rparr>))"
    using nq by (simp add: TimeToFull_value)
  have hb: "HasBattery (s\<lparr>devices := ds1 @ (k, d) # ds2\<rparr>)
      = (isBattery d \<or> HasBattery (s\<lparr>devices := ds1 @ ds2\<rparr>))"
    by (auto simp: HasBattery_def HasBattery_loop_ex)
  from b te tf hb show ?thesis by blast
qed

theorem empty_nativePath_in_aggregates_witness:
  "nativePath (as_aggregated env_ac (battery ''/UPower/devices/battery_BAT2'' [] 90)) = []
   \<and> fst (BatteryLeft env_ac (pk_two\<lparr>devices :=
          devices pk_two @ [(''/UPower/devices/battery_BAT2'',
            battery ''/UPower/devices/battery_BAT2'' [] 90)]\<rparr>)) = Finite 50
   \<and> fst (TimeToEmpty env_ac (pk_two\<lparr>devices :=
          devices pk_two @ [(''/UPower/devices/battery_BAT2'',
            battery ''/UPower/devices/battery_BAT2'' [] 90)]\<rparr>)) = 1200
   \<and> fst (TimeToFull env_ac (pk_two\<lparr>devices :=
          devices pk_two @ [(''/UPower/devices/battery_BAT2'',
            battery ''/UPower/devices/battery_BAT2'' [] 90)]\<rparr>)) = 0"
proof -
  have n: "nativePath (as_aggregated env_ac (battery ''/UPower/devices/battery_BAT2'' [] 90)) = []"
    by (simp add: as_aggregated_def OnBattery_def env_ac_def battery_def)
  have same: "pk_two\<lparr>devices := devices pk_two @ []\<rparr> = pk_two"
    by simp
  have b: "fst (BatteryLeft env_ac pk_two) = Finite 50"
    by (simp add: BatteryLeft_def Let_def OnBattery_def double_div_def
        env_ac_def pk_two_def pk_init_def battery_def)
  have te: "fst (TimeToEmpty env_ac pk_two) = 1200"
    by (simp add: TimeToEmpty_def Let_def OnBattery_def
        env_ac_def pk_two_def pk_init_def battery_def)
  have tf: "fst (TimeToFull env_ac pk_two) = 0"
    by (simp add: TimeToFull_def Let_def OnBattery_def
        env_ac_def pk_two_def pk_init_def battery_def)
  from empty_nativePath_in_aggregates [where s = pk_two and ?ds1.0 = "devices pk_two"
      and k = "''/UPower/devices/battery_BAT2''" and ?ds2.0 = "[]", OF n]
  show ?thesis
    unfolding same using n b te tf by simp
qed

text \<open>
  One tracked battery, present, with an empty native path: \<open>HasBattery\<close> is true because
  of it, and false for the device set without it.
\<close>

theorem HasBattery_counts_empty_nativePath:
  "devices pk_nopath
     = [(''/UPower/devices/battery_BAT0'', battery ''/UPower/devices/battery_BAT0'' [] 40)]
   \<and> nativePath (battery ''/UPower/devices/battery_BAT0'' [] 40) = []
   \<and> isBattery (battery ''/UPower/devices/battery_BAT0'' [] 40)
   \<and> isPresent (battery ''/UPower/devices/battery_BAT0'' [] 40)
   \<and> HasBattery pk_nopath
   \<and> \<not> HasBattery (pk_nopath\<lparr>devices := []\<rparr>)"
  by (simp add: HasBattery_def pk_nopath_def pk_init_def battery_def)

end
